theory Spec2Isabelle
  imports Main "HOL-Library.Word"
begin

unbundle bit_operations_syntax

section \<open>Hyra, amd64 machine-dependent bring-up (machdep.c) and the kernel log (kern_syslog.c)\<close>

subsection \<open>Bit macros\<close>

text \<open>
  Modelled from the spec: the macros \<open>__BIT\<close> and \<open>__TEST\<close> come from \<open>sys/cdefs.h\<close>,
  which is not among the sources. \<open>__BIT(n)\<close> is the 64-bit constant with only bit \<open>n\<close>
  set (\<open>1ULL << n\<close>); \<open>__TEST(a, mask)\<close> says whether \<open>a\<close> has a bit of \<open>mask\<close> set
  ("requires two specific capability bits ... both set").
\<close>

definition BIT :: "nat \<Rightarrow> 64 word" where
  "BIT n = push_bit n 1"

definition TEST :: "64 word \<Rightarrow> 64 word \<Rightarrow> bool" where
  "TEST a m \<longleftrightarrow> a AND m \<noteq> 0"

subsection \<open>Outcomes\<close>

text \<open>
  \<open>panic\<close>, a failed \<open>__assert\<close>, a processor fault and spinning for ever on a lock
  that is never released end the run of the calling code; they are the left summand of
  every result.
\<close>

datatype halt = Panic string | Assert_failed | Fault | Deadlock

subsection \<open>The Feature Enabler\<close>

text \<open>
  \<open>is_sse_supported\<close> executes CPUID leaf 1 and looks at EDX only; the value CPUID
  reports is the argument.
\<close>

definition is_sse_supported :: "32 word \<Rightarrow> bool" where
  "is_sse_supported edx \<longleftrightarrow> TEST (ucast edx) (BIT 25) \<and> TEST (ucast edx) (BIT 26)"

text \<open>The registers of the calling core that \<open>processor_init\<close> reads and writes.\<close>

record cpu_regs =
  cpuid_edx :: "32 word"
  cr0 :: "64 word"
  cr4 :: "64 word"
  gs_base :: "64 word"
  intr_enabled :: bool

text \<open>
  Lines 227 to 240 of \<open>processor_init\<close>. \<open>reg_tmp\<close> is a static of the function; the
  value it is left with is returned beside the registers.
\<close>

definition enable_sse :: "cpu_regs \<Rightarrow> halt + (64 word \<times> cpu_regs)" where
  "enable_sse r =
     (if is_sse_supported (cpuid_edx r) then
        let reg_tmp = cr0 r;
            reg_tmp = reg_tmp AND NOT (BIT 2);
            reg_tmp = reg_tmp OR BIT 1;
            r = r\<lparr>cr0 := reg_tmp\<rparr>;
            reg_tmp = cr4 r;
            reg_tmp = reg_tmp OR push_bit 9 3;
            r = r\<lparr>cr4 := reg_tmp\<rparr>
        in Inr (reg_tmp, r)
      else Inl (Panic ''SSE/SSE2 not supported!\<newline>''))"

subsection \<open>Kernel globals and calls into the rest of the kernel\<close>

text \<open>
  The names of the trap entry points installed by \<open>interrupts_init\<close> (their addresses
  are link-time constants) and of the two gate kinds, which are macros of
  \<open>machine/idt.h\<close>.
\<close>

datatype isr =
    arith_err | nmi | breakpoint_handler | overflow | bound_range | invl_op
  | double_fault | invl_tss | segnp | ss_fault | general_prot | page_fault | syscall_isr

datatype gate_flags = IDT_TRAP_GATE_FLAGS | IDT_INT_GATE_USER

record idt_entry =
  gate_type :: gate_flags
  gate_isr :: isr
  gate_ist :: "8 word"

text \<open>
  Every routine the two files call without defining it is recorded, in call order, as an
  event of the kernel's trace.
\<close>

datatype event =
    UART8250_TRY_INIT
  | VM_PHYSSEG_INIT
  | VM_INIT
  | IDT_SET_DESC "8 word" gate_flags isr "8 word"
  | IDT_LOAD
  | GDT_LOAD
  | WRITE_TSS "64 word"
  | TSS_LOAD
  | ACPI_PARSE_MADT "64 word"
  | IOAPIC_INIT
  | LAPIC_INIT
  | TRY_SPECTRE_MITIGATE

text \<open>The per-core descriptor \<open>struct cpu_info\<close>: its lock and the field the code writes.\<close>

record cpu_info =
  lock :: bool
  lapic_base :: "64 word"

text \<open>
  The globals: the function statics \<open>is_bsp\<close> (of \<open>pre_init\<close>), \<open>init_flags\<close> and
  \<open>reg_tmp\<close> (of \<open>processor_init\<close>), the interrupt vector table, the descriptors
  handed out by \<open>dynalloc\<close>, and what the absent collaborators answer:
  \<open>dyn_next\<close> lists the addresses the next calls of \<open>dynalloc\<close> return (none left:
  \<open>NULL\<close>), \<open>acpi_lapic_base\<close> is the answer of \<open>acpi_get_lapic_base\<close>, and
  \<open>spectre_hook\<close> says whether \<open>try_spectre_mitigate\<close> is registered.
\<close>

record kernel =
  is_bsp :: bool
  init_flags :: "8 word"
  reg_tmp :: "64 word"
  g_idt :: "8 word \<Rightarrow> idt_entry option"
  cpu_infos :: "64 word \<Rightarrow> cpu_info option"
  dyn_next :: "64 word list"
  acpi_lapic_base :: "64 word"
  spectre_hook :: bool
  trace :: "event list"

definition emit :: "event \<Rightarrow> kernel \<Rightarrow> kernel" where
  "emit e k = k\<lparr>trace := trace k @ [e]\<rparr>"

subsection \<open>The Interrupt Vector Installer\<close>

text \<open>
  Modelled from the spec: \<open>idt_set_desc\<close> and \<open>idt_load\<close> are defined in the IDT
  driver, which is not among the sources. "Given (vector, gate-kind, entry-point),
  install one dispatch entry; load the table into the active core." The table has one
  slot for each of the 256 values of the 8-bit vector.
\<close>

definition idt_set_desc :: "8 word \<Rightarrow> gate_flags \<Rightarrow> isr \<Rightarrow> 8 word \<Rightarrow> kernel \<Rightarrow> kernel" where
  "idt_set_desc vec type isr ist k =
     emit (IDT_SET_DESC vec type isr ist)
       (k\<lparr>g_idt := (g_idt k)(vec \<mapsto> \<lparr>gate_type = type, gate_isr = isr, gate_ist = ist\<rparr>)\<rparr>)"

definition idt_load :: "kernel \<Rightarrow> kernel" where
  "idt_load = emit IDT_LOAD"

definition interrupts_init :: "kernel \<Rightarrow> kernel" where
  "interrupts_init k =
     (let k = idt_set_desc 0x0 IDT_TRAP_GATE_FLAGS arith_err 0 k;
          k = idt_set_desc 0x2 IDT_TRAP_GATE_FLAGS nmi 0 k;
          k = idt_set_desc 0x3 IDT_TRAP_GATE_FLAGS breakpoint_handler 0 k;
          k = idt_set_desc 0x4 IDT_TRAP_GATE_FLAGS overflow 0 k;
          k = idt_set_desc 0x5 IDT_TRAP_GATE_FLAGS bound_range 0 k;
          k = idt_set_desc 0x6 IDT_TRAP_GATE_FLAGS invl_op 0 k;
          k = idt_set_desc 0x8 IDT_TRAP_GATE_FLAGS double_fault 0 k;
          k = idt_set_desc 0xA IDT_TRAP_GATE_FLAGS invl_tss 0 k;
          k = idt_set_desc 0xB IDT_TRAP_GATE_FLAGS segnp 0 k;
          k = idt_set_desc 0xC IDT_TRAP_GATE_FLAGS ss_fault 0 k;
          k = idt_set_desc 0xD IDT_TRAP_GATE_FLAGS general_prot 0 k;
          k = idt_set_desc 0xE IDT_TRAP_GATE_FLAGS page_fault 0 k;
          k = idt_set_desc 0x80 IDT_INT_GATE_USER syscall_isr 0 k
      in idt_load k)"

subsection \<open>The Bring-up Sequencer\<close>

definition uart8250_try_init :: "kernel \<Rightarrow> kernel" where
  "uart8250_try_init = emit UART8250_TRY_INIT"

definition vm_physseg_init :: "kernel \<Rightarrow> kernel" where
  "vm_physseg_init = emit VM_PHYSSEG_INIT"

definition vm_init :: "kernel \<Rightarrow> kernel" where
  "vm_init = emit VM_INIT"

definition gdt_load :: "kernel \<Rightarrow> kernel" where
  "gdt_load = emit GDT_LOAD"

definition pre_init :: "kernel \<Rightarrow> kernel" where
  "pre_init k =
     (let k = (if is_bsp k then
                 let k = k\<lparr>is_bsp := False\<rparr>;
                     k = uart8250_try_init k;
                     k = vm_physseg_init k;
                     k = vm_init k
                 in k
               else k);
          k = interrupts_init k
      in gdt_load k)"

text \<open>What one run of \<open>interrupts_init\<close> adds to the trace.\<close>

definition idt_install_events :: "event list" where
  "idt_install_events =
     [IDT_SET_DESC 0x0 IDT_TRAP_GATE_FLAGS arith_err 0,
      IDT_SET_DESC 0x2 IDT_TRAP_GATE_FLAGS nmi 0,
      IDT_SET_DESC 0x3 IDT_TRAP_GATE_FLAGS breakpoint_handler 0,
      IDT_SET_DESC 0x4 IDT_TRAP_GATE_FLAGS overflow 0,
      IDT_SET_DESC 0x5 IDT_TRAP_GATE_FLAGS bound_range 0,
      IDT_SET_DESC 0x6 IDT_TRAP_GATE_FLAGS invl_op 0,
      IDT_SET_DESC 0x8 IDT_TRAP_GATE_FLAGS double_fault 0,
      IDT_SET_DESC 0xA IDT_TRAP_GATE_FLAGS invl_tss 0,
      IDT_SET_DESC 0xB IDT_TRAP_GATE_FLAGS segnp 0,
      IDT_SET_DESC 0xC IDT_TRAP_GATE_FLAGS ss_fault 0,
      IDT_SET_DESC 0xD IDT_TRAP_GATE_FLAGS general_prot 0,
      IDT_SET_DESC 0xE IDT_TRAP_GATE_FLAGS page_fault 0,
      IDT_SET_DESC 0x80 IDT_INT_GATE_USER syscall_isr 0,
      IDT_LOAD]"

text \<open>The kernel at boot: the statics hold their initialisers, nothing has been called.\<close>

definition at_boot :: "kernel \<Rightarrow> kernel" where
  "at_boot k = k\<lparr>is_bsp := True, init_flags := 0, trace := []\<rparr>"

subsection \<open>The Per-Processor Orchestrator\<close>

definition INIT_FLAG_IOAPIC :: "8 word" where
  "INIT_FLAG_IOAPIC = 0x01"

definition INIT_FLAG_ACPI :: "8 word" where
  "INIT_FLAG_ACPI = 0x02"

text \<open>
  Modelled from the spec: \<open>dynalloc\<close>, \<open>CPU_INFO_LOCK\<close>, \<open>CPU_INFO_UNLOCK\<close>,
  \<open>write_tss\<close>, \<open>tss_load\<close>, \<open>acpi_parse_madt\<close>, \<open>acpi_get_lapic_base\<close>,
  \<open>ioapic_init\<close>, \<open>lapic_init\<close> and \<open>try_spectre_mitigate\<close> are not among the sources.
  \<open>dynalloc\<close> hands out the next address of \<open>dyn_next\<close>, or \<open>NULL\<close>. The lock of a
  descriptor ("Attributes: identity, a lock, ...") is a spin lock: taking it succeeds
  when it is free and otherwise does not proceed (\<open>None\<close>). The other routines are
  events of the trace.
\<close>

definition dynalloc :: "kernel \<Rightarrow> 64 word \<times> kernel" where
  "dynalloc k = (case dyn_next k of [] \<Rightarrow> (0, k) | a # as \<Rightarrow> (a, k\<lparr>dyn_next := as\<rparr>))"

definition CPU_INFO_LOCK :: "64 word \<Rightarrow> kernel \<Rightarrow> kernel option" where
  "CPU_INFO_LOCK cur_cpu k =
     (case cpu_infos k cur_cpu of
        None \<Rightarrow> None
      | Some d \<Rightarrow> if lock d then None
                 else Some (k\<lparr>cpu_infos := (cpu_infos k)(cur_cpu \<mapsto> d\<lparr>lock := True\<rparr>)\<rparr>))"

definition CPU_INFO_UNLOCK :: "64 word \<Rightarrow> kernel \<Rightarrow> kernel" where
  "CPU_INFO_UNLOCK cur_cpu k =
     (case cpu_infos k cur_cpu of
        None \<Rightarrow> k
      | Some d \<Rightarrow> k\<lparr>cpu_infos := (cpu_infos k)(cur_cpu \<mapsto> d\<lparr>lock := False\<rparr>)\<rparr>)"

definition init_tss :: "64 word \<Rightarrow> kernel \<Rightarrow> kernel" where
  "init_tss cur_cpu k = emit TSS_LOAD (emit (WRITE_TSS cur_cpu) k)"

definition acpi_parse_madt :: "64 word \<Rightarrow> kernel \<Rightarrow> kernel" where
  "acpi_parse_madt cur_cpu = emit (ACPI_PARSE_MADT cur_cpu)"

definition ioapic_init :: "kernel \<Rightarrow> kernel" where
  "ioapic_init = emit IOAPIC_INIT"

definition lapic_init :: "kernel \<Rightarrow> kernel" where
  "lapic_init = emit LAPIC_INIT"

definition try_spectre_mitigate :: "kernel \<Rightarrow> kernel" where
  "try_spectre_mitigate = emit TRY_SPECTRE_MITIGATE"

definition set_lapic_base :: "64 word \<Rightarrow> kernel \<Rightarrow> kernel" where
  "set_lapic_base cur_cpu k =
     (case cpu_infos k cur_cpu of
        None \<Rightarrow> k
      | Some d \<Rightarrow> k\<lparr>cpu_infos := (cpu_infos k)(cur_cpu \<mapsto> d\<lparr>lapic_base := acpi_lapic_base k\<rparr>)\<rparr>)"

text \<open>
  Lines 249 to 260 of \<open>processor_init\<close>: the platform discovery, behind the two flags
  of the static \<open>init_flags\<close>.
\<close>

definition discover :: "64 word \<Rightarrow> kernel \<Rightarrow> kernel" where
  "discover cur_cpu k =
     (let k = (if \<not> TEST (ucast (init_flags k)) (ucast INIT_FLAG_ACPI)
               then acpi_parse_madt cur_cpu (k\<lparr>init_flags := init_flags k OR INIT_FLAG_ACPI\<rparr>)
               else k)
      in if \<not> TEST (ucast (init_flags k)) (ucast INIT_FLAG_IOAPIC)
         then ioapic_init (k\<lparr>init_flags := init_flags k OR INIT_FLAG_IOAPIC\<rparr>)
         else k)"

text \<open>\<open>processor_init\<close>, run by one core from entry to return with no other core running.\<close>

definition processor_init :: "cpu_regs \<Rightarrow> kernel \<Rightarrow> halt + (cpu_regs \<times> kernel)" where
  "processor_init r k =
     (let (cur_cpu, k) = dynalloc k in
      if cur_cpu = 0 then Inl Assert_failed
      else
        let k = k\<lparr>cpu_infos := (cpu_infos k)(cur_cpu \<mapsto> \<lparr>lock = False, lapic_base = 0\<rparr>)\<rparr>;
            r = r\<lparr>gs_base := cur_cpu\<rparr>
        in case enable_sse r of
             Inl h \<Rightarrow> Inl h
           | Inr (tmp, r) \<Rightarrow>
               (case CPU_INFO_LOCK cur_cpu (k\<lparr>reg_tmp := tmp\<rparr>) of
                  None \<Rightarrow> Inl Deadlock
                | Some k \<Rightarrow>
                    let k = init_tss cur_cpu k;
                        k = discover cur_cpu k;
                        k = set_lapic_base cur_cpu k;
                        k = CPU_INFO_UNLOCK cur_cpu k;
                        k = lapic_init k;
                        k = (if spectre_hook k then try_spectre_mitigate k else k);
                        r = r\<lparr>intr_enabled := True\<rparr>
                    in Inr (r, k)))"

subsection \<open>Several cores in \<open>processor_init\<close> at once\<close>

text \<open>
  Each core runs \<open>processor_init\<close> statement by statement; a schedule says which core
  executes its next statement. The test of a flag of \<open>init_flags\<close> (lines 249 and 257),
  the update of the flag (lines 254 and 258) and the call that follows (lines 255 and
  259) are three statements. The label of a thread is the statement it executes next.
\<close>

datatype label =
    L_ENTRY | L_SSE | L_LOCK | L_INIT_TSS
  | L_TEST_ACPI | L_SET_ACPI | L_PARSE_MADT
  | L_TEST_IOAPIC | L_SET_IOAPIC | L_IOAPIC_INIT
  | L_LAPIC_BASE | L_UNLOCK | L_LAPIC_INIT | L_SPECTRE | L_STI
  | L_RETURNED | L_HALTED halt

record thread =
  regs :: cpu_regs
  cur_cpu :: "64 word"
  pc :: label

text \<open>One statement of one thread; \<open>None\<close> when the thread cannot move.\<close>

fun exec :: "label \<Rightarrow> thread \<Rightarrow> kernel \<Rightarrow> (thread \<times> kernel) option" where
  "exec L_ENTRY t k =
     (let (a, k) = dynalloc k in
      if a = 0 then Some (t\<lparr>cur_cpu := a, pc := L_HALTED Assert_failed\<rparr>, k)
      else Some (t\<lparr>regs := (regs t)\<lparr>gs_base := a\<rparr>, cur_cpu := a, pc := L_SSE\<rparr>,
                 k\<lparr>cpu_infos := (cpu_infos k)(a \<mapsto> \<lparr>lock = False, lapic_base = 0\<rparr>)\<rparr>))"
| "exec L_SSE t k =
     (case enable_sse (regs t) of
        Inl h \<Rightarrow> Some (t\<lparr>pc := L_HALTED h\<rparr>, k)
      | Inr (tmp, r) \<Rightarrow> Some (t\<lparr>regs := r, pc := L_LOCK\<rparr>, k\<lparr>reg_tmp := tmp\<rparr>))"
| "exec L_LOCK t k =
     (case CPU_INFO_LOCK (cur_cpu t) k of
        None \<Rightarrow> None
      | Some k \<Rightarrow> Some (t\<lparr>pc := L_INIT_TSS\<rparr>, k))"
| "exec L_INIT_TSS t k = Some (t\<lparr>pc := L_TEST_ACPI\<rparr>, init_tss (cur_cpu t) k)"
| "exec L_TEST_ACPI t k =
     (if \<not> TEST (ucast (init_flags k)) (ucast INIT_FLAG_ACPI)
      then Some (t\<lparr>pc := L_SET_ACPI\<rparr>, k)
      else Some (t\<lparr>pc := L_TEST_IOAPIC\<rparr>, k))"
| "exec L_SET_ACPI t k =
     Some (t\<lparr>pc := L_PARSE_MADT\<rparr>, k\<lparr>init_flags := init_flags k OR INIT_FLAG_ACPI\<rparr>)"
| "exec L_PARSE_MADT t k = Some (t\<lparr>pc := L_TEST_IOAPIC\<rparr>, acpi_parse_madt (cur_cpu t) k)"
| "exec L_TEST_IOAPIC t k =
     (if \<not> TEST (ucast (init_flags k)) (ucast INIT_FLAG_IOAPIC)
      then Some (t\<lparr>pc := L_SET_IOAPIC\<rparr>, k)
      else Some (t\<lparr>pc := L_LAPIC_BASE\<rparr>, k))"
| "exec L_SET_IOAPIC t k =
     Some (t\<lparr>pc := L_IOAPIC_INIT\<rparr>, k\<lparr>init_flags := init_flags k OR INIT_FLAG_IOAPIC\<rparr>)"
| "exec L_IOAPIC_INIT t k = Some (t\<lparr>pc := L_LAPIC_BASE\<rparr>, ioapic_init k)"
| "exec L_LAPIC_BASE t k = Some (t\<lparr>pc := L_UNLOCK\<rparr>, set_lapic_base (cur_cpu t) k)"
| "exec L_UNLOCK t k = Some (t\<lparr>pc := L_LAPIC_INIT\<rparr>, CPU_INFO_UNLOCK (cur_cpu t) k)"
| "exec L_LAPIC_INIT t k = Some (t\<lparr>pc := L_SPECTRE\<rparr>, lapic_init k)"
| "exec L_SPECTRE t k =
     Some (t\<lparr>pc := L_STI\<rparr>, if spectre_hook k then try_spectre_mitigate k else k)"
| "exec L_STI t k = Some (t\<lparr>regs := (regs t)\<lparr>intr_enabled := True\<rparr>, pc := L_RETURNED\<rparr>, k)"
| "exec L_RETURNED t k = None"
| "exec (L_HALTED h) t k = None"

record system =
  threads :: "nat \<Rightarrow> thread"
  kern :: kernel

definition step :: "nat \<Rightarrow> system \<Rightarrow> system option" where
  "step c s =
     (case exec (pc (threads s c)) (threads s c) (kern s) of
        None \<Rightarrow> None
      | Some (t, k) \<Rightarrow> Some \<lparr>threads = (threads s)(c := t), kern = k\<rparr>)"

fun run :: "nat list \<Rightarrow> system \<Rightarrow> system option" where
  "run [] s = Some s"
| "run (c # cs) s = (case step c s of None \<Rightarrow> None | Some s' \<Rightarrow> run cs s')"

text \<open>How many times the trace holds an event that satisfies \<open>P\<close>.\<close>

definition count_events :: "(event \<Rightarrow> bool) \<Rightarrow> kernel \<Rightarrow> nat" where
  "count_events P k = length (filter P (trace k))"

fun is_parse_madt :: "event \<Rightarrow> bool" where
  "is_parse_madt (ACPI_PARSE_MADT a) = True"
| "is_parse_madt e = False"

text \<open>Every core is about to call \<open>processor_init\<close>, with the registers \<open>r\<close>.\<close>

definition entering :: "cpu_regs \<Rightarrow> kernel \<Rightarrow> system" where
  "entering r k = \<lparr>threads = (\<lambda>c. \<lparr>regs = r, cur_cpu = 0, pc = L_ENTRY\<rparr>), kern = k\<rparr>"

subsection \<open>The Process FPU Context Manager\<close>

text \<open>
  The x87/SSE register file as \<open>fxsave\<close> stores it: the x87 control word, MXCSR, and
  the bytes of everything else.
\<close>

record fpu_image =
  fcw :: "16 word"
  mxcsr :: "32 word"
  fpu_rest :: "8 word list"

record pcb =
  fpu_state :: "64 word"

record proc =
  pcb :: pcb

datatype vm_call = VM_ALLOC_PAGEFRAME nat | VM_FREE_PAGEFRAME "64 word" nat

text \<open>
  The machine the context manager runs on: the live register file of the core, the save
  areas in memory (addressed by their first byte), the direct-map offset, the frames
  the physical allocator has left, and the calls made to the allocator.
\<close>

record machine =
  fpu :: fpu_image
  mem :: "64 word \<Rightarrow> fpu_image"
  VM_HIGHER_HALF :: "64 word"
  frames :: "64 word list"
  vm_calls :: "vm_call list"

text \<open>
  Modelled from the spec: the physical allocator and the macros \<open>PHYS_TO_VIRT\<close> and
  \<open>VIRT_TO_PHYS\<close> are not among the sources. "Allocate/free one or more physically
  addressed, fixed-size page frames; translate between physical and a directly mapped
  virtual address." \<open>vm_alloc_pageframe\<close> returns the physical address of the frame as
  an integer; that value is all its caller learns, and it is 0 when no frame is left.
  The translation adds, or takes away, the offset of the direct map, which the boot
  loader chooses: it is a field of the machine. Both calls of machdep.c are for one
  frame.
\<close>

definition vm_alloc_pageframe :: "machine \<Rightarrow> 64 word \<times> machine" where
  "vm_alloc_pageframe m =
     (case frames m of
        [] \<Rightarrow> (0, m\<lparr>vm_calls := vm_calls m @ [VM_ALLOC_PAGEFRAME 1]\<rparr>)
      | f # fs \<Rightarrow> (f, m\<lparr>frames := fs, vm_calls := vm_calls m @ [VM_ALLOC_PAGEFRAME 1]\<rparr>))"

definition vm_free_pageframe :: "64 word \<Rightarrow> machine \<Rightarrow> machine" where
  "vm_free_pageframe pa m =
     m\<lparr>frames := frames m @ [pa], vm_calls := vm_calls m @ [VM_FREE_PAGEFRAME pa 1]\<rparr>"

definition PHYS_TO_VIRT :: "machine \<Rightarrow> 64 word \<Rightarrow> 64 word" where
  "PHYS_TO_VIRT m phys = phys + VM_HIGHER_HALF m"

definition VIRT_TO_PHYS :: "machine \<Rightarrow> 64 word \<Rightarrow> 64 word" where
  "VIRT_TO_PHYS m virt = virt - VM_HIGHER_HALF m"

text \<open>
  Modelled from the spec: \<open>amd64_fxsave\<close> and \<open>amd64_fxrstor\<close> wrap the two
  instructions and are not among the sources: "captures the live register state into
  [the] save area", "loads [the] save area into the live registers". The instructions
  fault on an operand that is not aligned on 16 bytes; the page at address 0 is not
  mapped.
\<close>

definition valid_area :: "64 word \<Rightarrow> bool" where
  "valid_area a \<longleftrightarrow> a \<noteq> 0 \<and> a AND 0xF = 0"

definition amd64_fxsave :: "64 word \<Rightarrow> machine \<Rightarrow> halt + machine" where
  "amd64_fxsave area m =
     (if valid_area area then Inr (m\<lparr>mem := (mem m)(area := fpu m)\<rparr>) else Inl Fault)"

definition amd64_fxrstor :: "64 word \<Rightarrow> machine \<Rightarrow> halt + machine" where
  "amd64_fxrstor area m =
     (if valid_area area then Inr (m\<lparr>fpu := mem m area\<rparr>) else Inl Fault)"

definition processor_init_pcb :: "proc \<Rightarrow> machine \<Rightarrow> halt + (int \<times> proc \<times> machine)" where
  "processor_init_pcb p m =
     (let FPU_FCW = 0x33F;
          SSE_MXCSR = 0x1F80;
          (phys, m) = vm_alloc_pageframe m;
          p = p\<lparr>pcb := (pcb p)\<lparr>fpu_state := PHYS_TO_VIRT m phys\<rparr>\<rparr>
      in if fpu_state (pcb p) = 0 then Inr (- 1, p, m)
         else
           let m = m\<lparr>fpu := (fpu m)\<lparr>fcw := FPU_FCW, mxcsr := SSE_MXCSR\<rparr>\<rparr>
           in case amd64_fxsave (fpu_state (pcb p)) m of
                Inl h \<Rightarrow> Inl h
              | Inr m \<Rightarrow> Inr (0, p, m))"

definition processor_free_pcb :: "proc \<Rightarrow> machine \<Rightarrow> int \<times> proc \<times> machine" where
  "processor_free_pcb p m =
     (if fpu_state (pcb p) = 0 then (- 1, p, m)
      else (0, p, vm_free_pageframe (VIRT_TO_PHYS m (fpu_state (pcb p))) m))"

text \<open>
  \<open>old_td\<close> may be \<open>NULL\<close>. \<open>new_td\<close> is read without a test: when it is \<open>NULL\<close> the
  read of its save-area pointer faults, after the save for \<open>old_td\<close>.
\<close>

definition processor_switch_to :: "proc option \<Rightarrow> proc option \<Rightarrow> machine \<Rightarrow> halt + machine" where
  "processor_switch_to old_td new_td m =
     (case (case old_td of
              None \<Rightarrow> Inr m
            | Some old \<Rightarrow> amd64_fxsave (fpu_state (pcb old)) m) of
        Inl h \<Rightarrow> Inl h
      | Inr m \<Rightarrow>
          (case new_td of
             None \<Rightarrow> Inl Fault
           | Some new \<Rightarrow> amd64_fxrstor (fpu_state (pcb new)) m))"

subsection \<open>The kernel log (kern_syslog.c)\<close>

datatype tty_event = SERIAL_DBGCH "8 word" | TTY_PUTC "8 word" | TTY_FLUSH

text \<open>
  The loop of \<open>syslog_write\<close>: \<open>tmp_s\<close> is what is left of the object \<open>s\<close> points into,
  \<open>dbg\<close> says whether the kernel is built with \<open>__SERIAL_DEBUG\<close>. Reading past the end of
  the object is a fault.
\<close>

fun syslog_write_loop :: "bool \<Rightarrow> 8 word list \<Rightarrow> nat \<Rightarrow> tty_event list \<Rightarrow> halt + tty_event list" where
  "syslog_write_loop dbg tmp_s 0 out = Inr out"
| "syslog_write_loop dbg [] (Suc tmp_len) out = Inl Fault"
| "syslog_write_loop dbg (c # tmp_s) (Suc tmp_len) out =
     syslog_write_loop dbg tmp_s tmp_len
       (out @ (if dbg then [SERIAL_DBGCH c] else []) @ [TTY_PUTC c])"

definition syslog_write :: "bool \<Rightarrow> 8 word list \<Rightarrow> nat \<Rightarrow> tty_event list \<Rightarrow> halt + tty_event list" where
  "syslog_write dbg s len out =
     (case syslog_write_loop dbg s len out of
        Inl h \<Rightarrow> Inl h
      | Inr out \<Rightarrow> Inr (out @ [TTY_FLUSH]))"

text \<open>
  Modelled from the spec: \<open>vsnprintf\<close> and \<open>strlen\<close> belong to the kernel's string
  library, which is not among the sources; they are taken by their ISO C contracts.
  \<open>text\<close> is the whole expansion of the format string with its arguments;
  \<open>vsnprintf\<close> stores at most \<open>sz - 1\<close> of its characters and a terminating NUL.
  \<open>strlen\<close> counts up to the first NUL and runs off the object when there is none.
\<close>

definition vsnprintf :: "8 word list \<Rightarrow> nat \<Rightarrow> 8 word list \<Rightarrow> 8 word list" where
  "vsnprintf buffer sz text =
     (if sz = 0 then buffer
      else let n = min (length text) (sz - 1)
           in take n text @ [0] @ drop (Suc n) buffer)"

definition strlen :: "8 word list \<Rightarrow> nat option" where
  "strlen s = (if 0 \<in> set s then Some (length (takeWhile (\<lambda>c. c \<noteq> 0) s)) else None)"

definition vkprintf :: "bool \<Rightarrow> 8 word list \<Rightarrow> tty_event list \<Rightarrow> halt + tty_event list" where
  "vkprintf dbg text out =
     (let buffer = replicate 1024 0;
          buffer = vsnprintf buffer 1024 text
      in case strlen buffer of
           None \<Rightarrow> Inl Fault
         | Some len \<Rightarrow> syslog_write dbg buffer len out)"

definition kprintf :: "bool \<Rightarrow> 8 word list \<Rightarrow> tty_event list \<Rightarrow> halt + tty_event list" where
  "kprintf = vkprintf"

text \<open>The characters handed to the terminal, in order.\<close>

fun putc_chars :: "tty_event list \<Rightarrow> 8 word list" where
  "putc_chars [] = []"
| "putc_chars (TTY_PUTC c # es) = c # putc_chars es"
| "putc_chars (e # es) = putc_chars es"

subsection \<open>A boot of two cores\<close>

fun is_ioapic_init :: "event \<Rightarrow> bool" where
  "is_ioapic_init IOAPIC_INIT = True"
| "is_ioapic_init e = False"

text \<open>
  A kernel at boot with room for two descriptors, registers of a core that has SSE and
  SSE2, and a schedule of two cores: core 0 runs up to its test of the ACPI flag, then
  core 1 does; each then sets the flag and parses the MADT, and the same happens at the
  I/O APIC flag.
\<close>

definition two_descriptors :: kernel where
  "two_descriptors =
     \<lparr>is_bsp = False, init_flags = 0, reg_tmp = 0, g_idt = Map.empty, cpu_infos = Map.empty,
      dyn_next = [0x1000, 0x2000], acpi_lapic_base = 0xFEE00000, spectre_hook = False,
      trace = []\<rparr>"

definition sse_regs :: cpu_regs where
  "sse_regs =
     \<lparr>cpuid_edx = 0x6000000, cr0 = 0x80000011, cr4 = 0x20, gs_base = 0, intr_enabled = False\<rparr>"

definition racing :: "nat list" where
  "racing =
     [0, 0, 0, 0, 0, 1, 1, 1, 1, 1, 0, 0, 0, 1, 1, 1, 0, 0, 0, 0, 0, 0, 0, 1, 1, 1, 1, 1, 1, 1]"

text \<open>How often the MADT was parsed and the I/O APIC initialised.\<close>

definition discoveries :: "system \<Rightarrow> nat \<times> nat" where
  "discoveries s =
     (count_events is_parse_madt (kern s), count_events is_ioapic_init (kern s))"

text \<open>
  A kernel with room for three descriptors, and a schedule on which two cores take turns
  from entry to return once the flags are set (eleven statements each).
\<close>

definition three_descriptors :: kernel where
  "three_descriptors = two_descriptors\<lparr>dyn_next := [0x1000, 0x2000, 0x3000]\<rparr>"

definition taking_turns :: "nat list" where
  "taking_turns = concat (replicate 11 [0, 1])"

text \<open>
  The invariant of the cores that enter after the flags are set: both flags are set and
  no core is between a test that found a flag clear and the call it guards.
\<close>

definition discovered :: "kernel \<Rightarrow> bool" where
  "discovered k \<longleftrightarrow>
     TEST (ucast (init_flags k)) (ucast INIT_FLAG_ACPI) \<and>
     TEST (ucast (init_flags k)) (ucast INIT_FLAG_IOAPIC)"

definition past_discovery :: "label \<Rightarrow> bool" where
  "past_discovery l \<longleftrightarrow> l \<notin> {L_SET_ACPI, L_PARSE_MADT, L_SET_IOAPIC, L_IOAPIC_INIT}"

definition quiet :: "system \<Rightarrow> bool" where
  "quiet s \<longleftrightarrow> discovered (kern s) \<and> (\<forall>c. past_discovery (pc (threads s c)))"

text \<open>
  How many statements the discovery (lines 249 to 260) takes a core that runs it with no
  other core in between.
\<close>

definition discovery_steps :: "kernel \<Rightarrow> nat" where
  "discovery_steps k =
     (if bit (init_flags k) (Suc 0)
      then (if bit (init_flags k) 0 then 2 else 4)
      else (if bit (init_flags k) 0 then 4 else 6))"

subsection \<open>Machines and processes to run the context manager on\<close>

text \<open>
  A machine whose direct map starts at the higher half, with two free frames; the same
  machine with no frame left; a process that has no save area yet, and a process whose
  save area is at \<open>a\<close>.
\<close>

definition hhdm_machine :: machine where
  "hhdm_machine =
     \<lparr>fpu = \<lparr>fcw = 0x37F, mxcsr = 0x1FA0, fpu_rest = [1, 2, 3]\<rparr>,
      mem = (\<lambda>a. \<lparr>fcw = 0, mxcsr = 0, fpu_rest = []\<rparr>),
      VM_HIGHER_HALF = 0xFFFF800000000000,
      frames = [0x5000, 0x6000],
      vm_calls = []\<rparr>"

definition exhausted :: machine where
  "exhausted = hhdm_machine\<lparr>frames := []\<rparr>"

definition fresh_proc :: proc where
  "fresh_proc = \<lparr>pcb = \<lparr>fpu_state = 0\<rparr>\<rparr>"

definition proc_at :: "64 word \<Rightarrow> proc" where
  "proc_at a = \<lparr>pcb = \<lparr>fpu_state = a\<rparr>\<rparr>"

text \<open>
  The register file after \<open>fldcw\<close> and \<open>ldmxcsr\<close> have loaded the control words of the
  System V calling convention.
\<close>

definition sysv_default :: "fpu_image \<Rightarrow> fpu_image" where
  "sysv_default i = i\<lparr>fcw := 0x33F, mxcsr := 0x1F80\<rparr>"

text \<open>What \<open>syslog_write\<close> hands on for the characters \<open>cs\<close>.\<close>

definition put_events :: "bool \<Rightarrow> 8 word list \<Rightarrow> tty_event list" where
  "put_events dbg cs =
     concat (map (\<lambda>c. (if dbg then [SERIAL_DBGCH c] else []) @ [TTY_PUTC c]) cs)"

section \<open>Properties\<close>

subsection \<open>The Feature Enabler\<close>

lemma TEST_BIT: "TEST a (BIT n) \<longleftrightarrow> bit a n"
  unfolding TEST_def BIT_def by (simp add: bit_iff_and_push_bit_not_eq_0)

lemma is_sse_supported_iff: "is_sse_supported edx \<longleftrightarrow> bit edx 25 \<and> bit edx 26"
  unfolding is_sse_supported_def by (simp add: TEST_BIT bit_ucast_iff)

lemma bit_BIT: "bit (BIT k) n \<longleftrightarrow> n = k \<and> k < 64"
  unfolding BIT_def by (auto simp add: bit_simps)

lemma bit_3: "bit (3::64 word) j \<longleftrightarrow> j = 0 \<or> j = 1"
  by (cases j; cases "j - 1") (auto simp add: bit_simps bit_Suc)

lemma bit_push_3: "bit (push_bit k (3::64 word)) n \<longleftrightarrow> (n = k \<or> n = Suc k) \<and> n < 64"
  unfolding bit_push_bit_iff bit_3 by (auto simp add: possible_bit_word)

lemma bit_cr0_enabled:
  "bit ((c AND NOT (BIT 2)) OR BIT 1) n \<longleftrightarrow> n = 1 \<or> (n \<noteq> 2 \<and> bit c n)"
  by (auto simp add: bit_or_iff bit_and_iff bit_not_iff bit_BIT dest: bit_imp_le_length)

lemma bit_cr4_enabled:
  "bit ((c::64 word) OR push_bit 9 3) n \<longleftrightarrow> n = 9 \<or> n = 10 \<or> bit c n"
  unfolding bit_or_iff bit_push_3 by auto

lemma enable_sse_supported:
  "is_sse_supported (cpuid_edx r) \<Longrightarrow>
   enable_sse r = Inr (cr4 r OR push_bit 9 3,
      r\<lparr>cr0 := (cr0 r AND NOT (BIT 2)) OR BIT 1, cr4 := cr4 r OR push_bit 9 3\<rparr>)"
  unfolding enable_sse_def Let_def by simp

lemma enable_sse_unsupported:
  "\<not> is_sse_supported (cpuid_edx r) \<Longrightarrow> enable_sse r = Inl (Panic ''SSE/SSE2 not supported!\<newline>'')"
  unfolding enable_sse_def by simp

text \<open>
  Claim C2. Whatever the feature word CPUID reports and whatever the two control
  registers hold, the Feature Enabler enables floating point exactly when bits 25 and 26
  of the feature word are both set: it then clears bit 2 (emulate floating point) and
  sets bit 1 (native floating point) of CR0, sets bits 9 and 10 (fast save and restore)
  of CR4 and leaves every other bit of the two registers alone. In every other case it
  halts the system with a panic.
\<close>

theorem feature_enabler_iff:
  "(bit (cpuid_edx r) 25 \<and> bit (cpuid_edx r) 26 \<longrightarrow>
      (\<exists>r'. enable_sse r = Inr (cr4 r', r') \<and>
            \<not> bit (cr0 r') 2 \<and> bit (cr0 r') 1 \<and> bit (cr4 r') 9 \<and> bit (cr4 r') 10 \<and>
            (\<forall>n. n \<noteq> 1 \<and> n \<noteq> 2 \<longrightarrow> bit (cr0 r') n = bit (cr0 r) n) \<and>
            (\<forall>n. n \<noteq> 9 \<and> n \<noteq> 10 \<longrightarrow> bit (cr4 r') n = bit (cr4 r) n))) \<and>
   (\<not> (bit (cpuid_edx r) 25 \<and> bit (cpuid_edx r) 26) \<longrightarrow>
      enable_sse r = Inl (Panic ''SSE/SSE2 not supported!\<newline>''))"
proof (intro conjI impI)
  assume b: "bit (cpuid_edx r) 25 \<and> bit (cpuid_edx r) 26"
  then have s: "is_sse_supported (cpuid_edx r)" by (simp add: is_sse_supported_iff)
  let ?r = "r\<lparr>cr0 := (cr0 r AND NOT (BIT 2)) OR BIT 1, cr4 := cr4 r OR push_bit 9 3\<rparr>"
  have "enable_sse r = Inr (cr4 ?r, ?r)" using enable_sse_supported [OF s] by simp
  moreover have "\<not> bit (cr0 ?r) 2" "bit (cr0 ?r) 1"
    using bit_cr0_enabled [of "cr0 r" 2] bit_cr0_enabled [of "cr0 r" 1] by simp_all
  moreover have "bit (cr4 ?r) 9" "bit (cr4 ?r) 10"
    using bit_cr4_enabled [of "cr4 r" 9] bit_cr4_enabled [of "cr4 r" 10] by simp_all
  moreover have "\<forall>n. n \<noteq> 1 \<and> n \<noteq> 2 \<longrightarrow> bit (cr0 ?r) n = bit (cr0 r) n"
    using bit_cr0_enabled [of "cr0 r"] by simp
  moreover have "\<forall>n. n \<noteq> 9 \<and> n \<noteq> 10 \<longrightarrow> bit (cr4 ?r) n = bit (cr4 r) n"
    using bit_cr4_enabled [of "cr4 r"] by simp
  ultimately show "\<exists>r'. enable_sse r = Inr (cr4 r', r') \<and>
            \<not> bit (cr0 r') 2 \<and> bit (cr0 r') 1 \<and> bit (cr4 r') 9 \<and> bit (cr4 r') 10 \<and>
            (\<forall>n. n \<noteq> 1 \<and> n \<noteq> 2 \<longrightarrow> bit (cr0 r') n = bit (cr0 r) n) \<and>
            (\<forall>n. n \<noteq> 9 \<and> n \<noteq> 10 \<longrightarrow> bit (cr4 r') n = bit (cr4 r) n)"
    by blast
next
  assume "\<not> (bit (cpuid_edx r) 25 \<and> bit (cpuid_edx r) 26)"
  then have "\<not> is_sse_supported (cpuid_edx r)" by (simp add: is_sse_supported_iff)
  then show "enable_sse r = Inl (Panic ''SSE/SSE2 not supported!\<newline>'')"
    by (rule enable_sse_unsupported)
qed

text \<open>The same on \<open>processor_init\<close> as a whole, once it has its descriptor.\<close>

lemma processor_init_unsupported:
  "dyn_next k = a # as \<Longrightarrow> a \<noteq> 0 \<Longrightarrow> \<not> (bit (cpuid_edx r) 25 \<and> bit (cpuid_edx r) 26) \<Longrightarrow>
   processor_init r k = Inl (Panic ''SSE/SSE2 not supported!\<newline>'')"
  unfolding processor_init_def dynalloc_def
  by (simp add: enable_sse_unsupported is_sse_supported_iff)

lemma processor_init_supported:
  "dyn_next k = a # as \<Longrightarrow> a \<noteq> 0 \<Longrightarrow> bit (cpuid_edx r) 25 \<and> bit (cpuid_edx r) 26 \<Longrightarrow>
   \<exists>r' k'. processor_init r k = Inr (r', k') \<and> 
     cr0 r' = (cr0 r AND NOT (BIT 2)) OR BIT 1 \<and> cr4 r' = cr4 r OR push_bit 9 3"
  unfolding processor_init_def dynalloc_def
  by (simp add: enable_sse_supported is_sse_supported_iff CPU_INFO_LOCK_def Let_def)

theorem feature_enabler_iff_witness:
  "(\<exists>r'. enable_sse \<lparr>cpuid_edx = 0x6000000, cr0 = 0x80000015, cr4 = 0x20, gs_base = 0, intr_enabled = False\<rparr> = Inr (cr4 r', r')
       \<and> \<not> bit (cr0 r') 2 \<and> bit (cr0 r') 1 \<and> bit (cr4 r') 9 \<and> bit (cr4 r') 10) \<and>
   enable_sse \<lparr>cpuid_edx = 0x2000000, cr0 = 0x80000015, cr4 = 0x20, gs_base = 0, intr_enabled = False\<rparr>
     = Inl (Panic ''SSE/SSE2 not supported!\<newline>'')"
proof -
  let ?a = "\<lparr>cpuid_edx = 0x6000000, cr0 = 0x80000015, cr4 = 0x20, gs_base = 0, intr_enabled = False\<rparr>"
  let ?b = "\<lparr>cpuid_edx = 0x2000000, cr0 = 0x80000015, cr4 = 0x20, gs_base = 0, intr_enabled = False\<rparr>"
  have a: "bit (cpuid_edx ?a) 25 \<and> bit (cpuid_edx ?a) 26" by simp
  have b: "\<not> (bit (cpuid_edx ?b) 25 \<and> bit (cpuid_edx ?b) 26)" by simp
  from feature_enabler_iff [of ?a] a
  have 1: "\<exists>r'. enable_sse ?a = Inr (cr4 r', r') \<and>
            \<not> bit (cr0 r') 2 \<and> bit (cr0 r') 1 \<and> bit (cr4 r') 9 \<and> bit (cr4 r') 10"
    by blast
  from feature_enabler_iff [of ?b] b
  have 2: "enable_sse ?b = Inl (Panic ''SSE/SSE2 not supported!\<newline>'')"
    by blast
  from 1 2 show ?thesis by (rule conjI)
qed

subsection \<open>The Interrupt Vector Installer and the Bring-up Sequencer\<close>

lemma trace_interrupts_init: "trace (interrupts_init k) = trace k @ idt_install_events"
  by (simp add: interrupts_init_def idt_set_desc_def idt_load_def emit_def idt_install_events_def)

lemma is_bsp_interrupts_init: "is_bsp (interrupts_init k) = is_bsp k"
  by (simp add: interrupts_init_def idt_set_desc_def idt_load_def emit_def)

text \<open>
  Claim C8. Running \<open>interrupts_init\<close> a second time leaves the interrupt vector table
  as the first run left it, whatever the table held before: every one of the 256 slots
  has the same content after two installations as after one.
\<close>

theorem interrupts_init_idempotent:
  "g_idt (interrupts_init (interrupts_init k)) = g_idt (interrupts_init k)"
  by (simp add: interrupts_init_def idt_set_desc_def idt_load_def emit_def fun_eq_iff)

lemma trace_pre_init:
  "trace (pre_init k) =
     trace k @ (if is_bsp k then [UART8250_TRY_INIT, VM_PHYSSEG_INIT, VM_INIT] else [])
       @ idt_install_events @ [GDT_LOAD]"
  by (simp add: pre_init_def Let_def trace_interrupts_init uart8250_try_init_def
      vm_physseg_init_def vm_init_def gdt_load_def emit_def)

lemma is_bsp_pre_init: "\<not> is_bsp (pre_init k)"
  by (simp add: pre_init_def Let_def is_bsp_interrupts_init uart8250_try_init_def
      vm_physseg_init_def vm_init_def gdt_load_def emit_def)

lemma concat_replicate_swap: "concat (replicate n xs) @ xs = xs @ concat (replicate n xs)"
  by (induction n) simp_all

lemma pre_init_later_calls:
  "\<not> is_bsp k \<Longrightarrow>
   trace ((pre_init ^^ n) k) = trace k @ concat (replicate n (idt_install_events @ [GDT_LOAD]))
   \<and> \<not> is_bsp ((pre_init ^^ n) k)"
proof (induction n)
  case 0
  then show ?case by simp
next
  case (Suc n)
  have "concat (replicate n (idt_install_events @ [GDT_LOAD])) @ idt_install_events @ [GDT_LOAD]
      = (idt_install_events @ [GDT_LOAD]) @ concat (replicate n (idt_install_events @ [GDT_LOAD]))"
    using concat_replicate_swap [of n "idt_install_events @ [GDT_LOAD]"] by simp
  then show ?case using Suc by (simp add: trace_pre_init is_bsp_pre_init)
qed

text \<open>
  Claim C6. From boot (the static \<open>is_bsp\<close> holds its initialiser \<open>true\<close>), any number
  \<open>n + 1\<close> of calls of \<open>pre_init\<close> makes exactly these calls, in this order: once, at the
  head of the first call, the debug transmit path init, the physical memory segment
  tracker init and the virtual memory init; then, for each of the \<open>n + 1\<close> calls, the
  thirteen gate installations, the load of the interrupt vector table and the load of the
  segment descriptor table. \<open>pre_init\<close> has no parameter besides the kernel's state: the
  first call is told apart by the static alone.
\<close>

theorem pre_init_calls:
  "trace ((pre_init ^^ Suc n) (at_boot k)) =
     [UART8250_TRY_INIT, VM_PHYSSEG_INIT, VM_INIT]
       @ concat (replicate (Suc n) (idt_install_events @ [GDT_LOAD]))"
proof -
  have "trace ((pre_init ^^ Suc n) (at_boot k)) = trace ((pre_init ^^ n) (pre_init (at_boot k)))"
    by (simp only: funpow_Suc_right o_apply)
  also have "\<dots> = trace (pre_init (at_boot k))
                   @ concat (replicate n (idt_install_events @ [GDT_LOAD]))"
    using pre_init_later_calls [OF is_bsp_pre_init] by simp
  finally show ?thesis by (simp add: trace_pre_init at_boot_def)
qed

subsection \<open>The Per-Processor Orchestrator\<close>

lemma TEST_ACPI: "TEST (ucast (f :: 8 word)) (ucast INIT_FLAG_ACPI) \<longleftrightarrow> bit f (Suc 0)"
proof -
  have "TEST (ucast f) (ucast INIT_FLAG_ACPI) \<longleftrightarrow> bit (ucast f :: 64 word) 1"
    unfolding TEST_def INIT_FLAG_ACPI_def
    using bit_iff_and_push_bit_not_eq_0 [of "ucast f :: 64 word" 1] by simp
  then show ?thesis by (simp add: bit_ucast_iff)
qed

lemma TEST_IOAPIC: "TEST (ucast (f :: 8 word)) (ucast INIT_FLAG_IOAPIC) \<longleftrightarrow> bit f 0"
proof -
  have "TEST (ucast f) (ucast INIT_FLAG_IOAPIC) \<longleftrightarrow> bit (ucast f :: 64 word) 0"
    unfolding TEST_def INIT_FLAG_IOAPIC_def
    using bit_iff_and_push_bit_not_eq_0 [of "ucast f :: 64 word" 0] by simp
  then show ?thesis by (simp add: bit_ucast_iff)
qed

lemma flag_bits:
  "bit (f OR INIT_FLAG_ACPI) (Suc 0)" "bit (f OR INIT_FLAG_IOAPIC) 0"
  "bit (f OR INIT_FLAG_IOAPIC) (Suc 0) = bit f (Suc 0)" "bit (f OR INIT_FLAG_ACPI) 0 = bit f 0"
  by (simp_all add: INIT_FLAG_ACPI_def INIT_FLAG_IOAPIC_def bit_simps)

lemma discovered_iff: "discovered k \<longleftrightarrow> bit (init_flags k) (Suc 0) \<and> bit (init_flags k) 0"
  using TEST_ACPI [of "init_flags k"] TEST_IOAPIC [of "init_flags k"] by (simp add: discovered_def)

lemmas ext_defs = emit_def init_tss_def acpi_parse_madt_def ioapic_init_def lapic_init_def
  try_spectre_mitigate_def set_lapic_base_def CPU_INFO_UNLOCK_def CPU_INFO_LOCK_def dynalloc_def

lemma exec_discovered:
  assumes "exec l t k = Some (t', k')" "discovered k" "past_discovery l"
  shows "discovered k' \<and> past_discovery (pc t') \<and>
         count_events is_parse_madt k' = count_events is_parse_madt k \<and>
         count_events is_ioapic_init k' = count_events is_ioapic_init k"
  using assms TEST_ACPI [of "init_flags k"] TEST_IOAPIC [of "init_flags k"]
  by (cases l)
     (auto simp add: discovered_iff past_discovery_def count_events_def ext_defs Let_def
           split: option.splits if_splits list.splits sum.splits prod.splits)


lemma step_quiet:
  assumes "step c s = Some s'" "quiet s"
  shows "quiet s' \<and> count_events is_parse_madt (kern s') = count_events is_parse_madt (kern s) \<and>
         count_events is_ioapic_init (kern s') = count_events is_ioapic_init (kern s)"
proof -
  from assms(1) obtain t k where
    e: "exec (pc (threads s c)) (threads s c) (kern s) = Some (t, k)"
    and s': "s' = \<lparr>threads = (threads s)(c := t), kern = k\<rparr>"
    by (auto simp add: step_def split: option.splits)
  from assms(2) have "discovered (kern s)" "past_discovery (pc (threads s c))"
    by (simp_all add: quiet_def)
  from exec_discovered [OF e this] assms(2) show ?thesis
    by (simp add: s' quiet_def)
qed

lemma run_quiet:
  "run cs s = Some s' \<Longrightarrow> quiet s \<Longrightarrow>
   quiet s' \<and> count_events is_parse_madt (kern s') = count_events is_parse_madt (kern s) \<and>
   count_events is_ioapic_init (kern s') = count_events is_ioapic_init (kern s)"
proof (induction cs arbitrary: s)
  case Nil
  then show ?case by simp
next
  case (Cons c cs)
  from Cons.prems(1) obtain s1 where 1: "step c s = Some s1" and 2: "run cs s1 = Some s'"
    by (auto split: option.splits)
  from step_quiet [OF 1 Cons.prems(2)] Cons.IH [OF 2] show ?case by simp
qed

lemma discover_effect:
  "bit (init_flags (discover a k)) (Suc 0)"
  "bit (init_flags (discover a k)) 0"
  "count_events is_parse_madt (discover a k) =
     count_events is_parse_madt k + (if bit (init_flags k) (Suc 0) then 0 else 1)"
  "count_events is_ioapic_init (discover a k) =
     count_events is_ioapic_init k + (if bit (init_flags k) 0 then 0 else 1)"
  by (simp_all add: discover_def count_events_def emit_def acpi_parse_madt_def
      ioapic_init_def Let_def flag_bits TEST_ACPI TEST_IOAPIC)

lemma other_statements:
  "init_flags (init_tss a k) = init_flags k"
  "init_flags (set_lapic_base a k) = init_flags k"
  "init_flags (CPU_INFO_UNLOCK a k) = init_flags k"
  "init_flags (lapic_init k) = init_flags k"
  "init_flags (try_spectre_mitigate k) = init_flags k"
  "count_events is_parse_madt (init_tss a k) = count_events is_parse_madt k"
  "count_events is_parse_madt (set_lapic_base a k) = count_events is_parse_madt k"
  "count_events is_parse_madt (CPU_INFO_UNLOCK a k) = count_events is_parse_madt k"
  "count_events is_parse_madt (lapic_init k) = count_events is_parse_madt k"
  "count_events is_parse_madt (try_spectre_mitigate k) = count_events is_parse_madt k"
  "count_events is_ioapic_init (init_tss a k) = count_events is_ioapic_init k"
  "count_events is_ioapic_init (set_lapic_base a k) = count_events is_ioapic_init k"
  "count_events is_ioapic_init (CPU_INFO_UNLOCK a k) = count_events is_ioapic_init k"
  "count_events is_ioapic_init (lapic_init k) = count_events is_ioapic_init k"
  "count_events is_ioapic_init (try_spectre_mitigate k) = count_events is_ioapic_init k"
  by (simp_all add: count_events_def emit_def init_tss_def set_lapic_base_def CPU_INFO_UNLOCK_def
      lapic_init_def try_spectre_mitigate_def split: option.split)

lemma untouched_by_prologue:
  "count_events P (k\<lparr>dyn_next := as\<rparr>) = count_events P k"
  "count_events P (k\<lparr>cpu_infos := ci\<rparr>) = count_events P k"
  "count_events P (k\<lparr>reg_tmp := tmp\<rparr>) = count_events P k"
  by (simp_all add: count_events_def)

lemma processor_init_runs:
  assumes "dyn_next k = a # as" "a \<noteq> 0" "enable_sse (r\<lparr>gs_base := a\<rparr>) = Inr (tmp, r')"
  shows "\<exists>k1. processor_init r k = Inr (r'\<lparr>intr_enabled := True\<rparr>, k1) \<and>
         discovered k1 \<and>
         count_events is_parse_madt k1 =
           count_events is_parse_madt k + (if bit (init_flags k) (Suc 0) then 0 else 1) \<and>
         count_events is_ioapic_init k1 =
           count_events is_ioapic_init k + (if bit (init_flags k) 0 then 0 else 1)"
  using assms
  by (simp add: processor_init_def dynalloc_def CPU_INFO_LOCK_def Let_def discovered_iff
      other_statements discover_effect untouched_by_prologue)

lemma processor_init_Inr:
  assumes "processor_init r k = Inr (r1, k1)"
  shows "discovered k1 \<and>
         count_events is_parse_madt k1 =
           count_events is_parse_madt k + (if bit (init_flags k) (Suc 0) then 0 else 1) \<and>
         count_events is_ioapic_init k1 =
           count_events is_ioapic_init k + (if bit (init_flags k) 0 then 0 else 1)"
proof (cases "dyn_next k")
  case Nil
  with assms show ?thesis by (simp add: processor_init_def dynalloc_def)
next
  case (Cons a as)
  show ?thesis
  proof (cases "a = 0")
    case True
    with assms Cons show ?thesis by (simp add: processor_init_def dynalloc_def)
  next
    case False
    show ?thesis
    proof (cases "enable_sse (r\<lparr>gs_base := a\<rparr>)")
      case (Inl h)
      with assms Cons False show ?thesis by (simp add: processor_init_def dynalloc_def)
    next
      case (Inr p)
      obtain tmp r' where "p = (tmp, r')" by (cases p)
      with Inr have "enable_sse (r\<lparr>gs_base := a\<rparr>) = Inr (tmp, r')" by simp
      from processor_init_runs [OF Cons False this] assms show ?thesis by auto
    qed
  qed
qed

lemma processor_init_first:
  assumes "processor_init r (at_boot k) = Inr (r1, k1)"
  shows "discovered k1 \<and> count_events is_parse_madt k1 = 1 \<and> count_events is_ioapic_init k1 = 1"
  using processor_init_Inr [OF assms] by (simp add: at_boot_def count_events_def)

text \<open>
  Claim C1, as amended. Once one core (the bootstrap processor) has run
  \<open>processor_init\<close> from boot to its return with no other core inside it, any number of
  cores may run \<open>processor_init\<close> at once, statement by statement in any order: in every
  state they reach the MADT has been parsed exactly once and the I/O APIC initialised
  exactly once since boot. Nothing makes the test and the update of a flag one step, and
  the only lock held is the one of the calling core's own descriptor.
\<close>

theorem discovery_once_after_first:
  assumes "processor_init r0 (at_boot k) = Inr (r1, k1)"
    and "run cs (entering r k1) = Some s"
  shows "count_events is_parse_madt (kern s) = 1 \<and> count_events is_ioapic_init (kern s) = 1"
proof -
  from processor_init_first [OF assms(1)]
  have d: "discovered k1" and n: "count_events is_parse_madt k1 = 1" "count_events is_ioapic_init k1 = 1"
    by simp_all
  from d have "quiet (entering r k1)"
    by (simp add: quiet_def entering_def past_discovery_def)
  from run_quiet [OF assms(2) this] n show ?thesis
    by (simp add: entering_def)
qed


theorem discovery_once_after_first_witness:
  "\<exists>r1 k1 s. processor_init sse_regs (at_boot three_descriptors) = Inr (r1, k1) \<and>
      run taking_turns (entering sse_regs k1) = Some s \<and>
      count_events is_parse_madt (kern s) = 1 \<and> count_events is_ioapic_init (kern s) = 1"
proof -
  define r1 where "r1 = fst (projr (processor_init sse_regs (at_boot three_descriptors)))"
  define k1 where "k1 = snd (projr (processor_init sse_regs (at_boot three_descriptors)))"
  have "\<not> isl (processor_init sse_regs (at_boot three_descriptors))"
    by code_simp
  then have first: "processor_init sse_regs (at_boot three_descriptors) = Inr (r1, k1)"
    by (simp add: r1_def k1_def)
  have "run taking_turns (entering sse_regs k1) \<noteq> None"
    unfolding k1_def by code_simp
  then obtain s where later: "run taking_turns (entering sse_regs k1) = Some s"
    by blast
  from discovery_once_after_first [OF first later] first later show ?thesis
    by blast
qed

text \<open>
  Claim C1 as stated fails when two cores are both first: on the schedule \<open>racing\<close> each
  of the two finds the ACPI flag clear before the other sets it, and again the I/O APIC
  flag; both return, the MADT has been parsed twice and the I/O APIC initialised twice.
\<close>

theorem processor_init_race:
  "map_option discoveries (run racing (entering sse_regs two_descriptors)) = Some (2, 2)"
  by code_simp

text \<open>
  After the first ten statements of that schedule both cores hold the lock of their own
  descriptor and both are past the test of the ACPI flag.
\<close>

lemma both_in_section:
  "map_option (\<lambda>s. (pc (threads s 0), map_option lock (cpu_infos (kern s) 0x1000),
                       pc (threads s 1), map_option lock (cpu_infos (kern s) 0x2000)))
     (run (take 10 racing) (entering sse_regs two_descriptors))
   = Some (L_SET_ACPI, Some True, L_SET_ACPI, Some True)"
  by code_simp

text \<open>
  The two readings of \<open>processor_init\<close> agree: a core that runs alone, statement by
  statement, returns with the registers and the kernel that \<open>processor_init\<close> gives.
\<close>

lemma run_append: "run (cs @ ds) s = (case run cs s of None \<Rightarrow> None | Some s' \<Rightarrow> run ds s')"
  by (induction cs arbitrary: s) (simp_all split: option.split)

lemma run_discover:
  assumes "pc (ts c) = L_TEST_ACPI"
  shows "run (replicate (discovery_steps k) c) \<lparr>threads = ts, kern = k\<rparr> =
         Some \<lparr>threads = ts(c := (ts c)\<lparr>pc := L_LAPIC_BASE\<rparr>), kern = discover (cur_cpu (ts c)) k\<rparr>"
  using assms
  by (simp add: discovery_steps_def eval_nat_numeral step_def discover_def Let_def
      TEST_ACPI TEST_IOAPIC flag_bits acpi_parse_madt_def ioapic_init_def emit_def)


lemma run_prologue:
  assumes "dyn_next k = a # as" "a \<noteq> 0" "enable_sse (r\<lparr>gs_base := a\<rparr>) = Inr (tmp, r')"
  shows "run (replicate 4 c) (entering r k) =
         Some \<lparr>threads = (threads (entering r k))(c := \<lparr>regs = r', cur_cpu = a, pc = L_TEST_ACPI\<rparr>),
               kern = init_tss a (k\<lparr>dyn_next := as, reg_tmp := tmp,
                        cpu_infos := (cpu_infos k)(a \<mapsto> \<lparr>lock = True, lapic_base = 0\<rparr>)\<rparr>)\<rparr>"
  using assms
  by (simp add: eval_nat_numeral step_def entering_def dynalloc_def CPU_INFO_LOCK_def)

lemma run_epilogue:
  assumes "pc (ts c) = L_LAPIC_BASE"
  shows "run (replicate 5 c) \<lparr>threads = ts, kern = k\<rparr> =
         Some \<lparr>threads = ts(c := (ts c)\<lparr>regs := (regs (ts c))\<lparr>intr_enabled := True\<rparr>, pc := L_RETURNED\<rparr>),
               kern = (let k = lapic_init (CPU_INFO_UNLOCK (cur_cpu (ts c)) (set_lapic_base (cur_cpu (ts c)) k))
                       in if spectre_hook k then try_spectre_mitigate k else k)\<rparr>"
  using assms
  by (simp add: eval_nat_numeral step_def Let_def)

lemma processor_init_unfold:
  assumes "dyn_next k = a # as" "a \<noteq> 0" "enable_sse (r\<lparr>gs_base := a\<rparr>) = Inr (tmp, r')"
  shows "processor_init r k =
         Inr (r'\<lparr>intr_enabled := True\<rparr>,
              let k = discover a (init_tss a (k\<lparr>dyn_next := as, reg_tmp := tmp,
                        cpu_infos := (cpu_infos k)(a \<mapsto> \<lparr>lock = True, lapic_base = 0\<rparr>)\<rparr>));
                  k = lapic_init (CPU_INFO_UNLOCK a (set_lapic_base a k))
              in if spectre_hook k then try_spectre_mitigate k else k)"
  using assms
  by (simp add: processor_init_def dynalloc_def CPU_INFO_LOCK_def Let_def)


lemma run_alone:
  assumes "processor_init r k = Inr (r1, k1)"
  shows "\<exists>n. map_option (\<lambda>s. (regs (threads s c), pc (threads s c), kern s))
               (run (replicate n c) (entering r k)) = Some (r1, L_RETURNED, k1)"
proof (cases "dyn_next k")
  case Nil
  with assms show ?thesis by (simp add: processor_init_def dynalloc_def)
next
  case (Cons a as)
  show ?thesis
  proof (cases "a = 0")
    case True
    with assms Cons show ?thesis by (simp add: processor_init_def dynalloc_def)
  next
    case False
    show ?thesis
    proof (cases "enable_sse (r\<lparr>gs_base := a\<rparr>)")
      case (Inl h)
      with assms Cons False show ?thesis by (simp add: processor_init_def dynalloc_def)
    next
      case (Inr p)
      obtain tmp r' where "p = (tmp, r')" by (cases p)
      with Inr have sse: "enable_sse (r\<lparr>gs_base := a\<rparr>) = Inr (tmp, r')" by simp
      define k2 where "k2 = init_tss a (k\<lparr>dyn_next := as, reg_tmp := tmp,
                        cpu_infos := (cpu_infos k)(a \<mapsto> \<lparr>lock = True, lapic_base = 0\<rparr>)\<rparr>)"
      define n where "n = 4 + (discovery_steps k2 + 5)"
      have "run (replicate n c) (entering r k) =
            (case run (replicate 4 c) (entering r k) of None \<Rightarrow> None
             | Some s \<Rightarrow> (case run (replicate (discovery_steps k2) c) s of None \<Rightarrow> None
                 | Some s \<Rightarrow> run (replicate 5 c) s))"
        unfolding n_def replicate_add run_append ..
      then have "map_option (\<lambda>s. (regs (threads s c), pc (threads s c), kern s))
               (run (replicate n c) (entering r k)) = Some (r1, L_RETURNED, k1)"
        using assms
        by (simp add: run_prologue [OF Cons False sse] run_discover run_epilogue
            processor_init_unfold [OF Cons False sse] k2_def [symmetric])
      then show ?thesis ..
    qed
  qed
qed

subsection \<open>The Process FPU Context Manager\<close>

text \<open>\<open>processor_init_pcb\<close> in one piece: what it returns and what it leaves behind.\<close>

lemma processor_init_pcb_cases:
  "processor_init_pcb p m =
     (let phys = (case frames m of [] \<Rightarrow> 0 | f # fs \<Rightarrow> f);
          area = phys + VM_HIGHER_HALF m;
          p' = p\<lparr>pcb := (pcb p)\<lparr>fpu_state := area\<rparr>\<rparr>;
          m' = m\<lparr>frames := tl (frames m), vm_calls := vm_calls m @ [VM_ALLOC_PAGEFRAME 1]\<rparr>
      in if area = 0 then Inr (- 1, p', m')
         else if valid_area area
              then Inr (0, p', m'\<lparr>fpu := sysv_default (fpu m),
                                  mem := (mem m)(area := sysv_default (fpu m))\<rparr>)
              else Inl Fault)"
  by (simp add: processor_init_pcb_def vm_alloc_pageframe_def PHYS_TO_VIRT_def amd64_fxsave_def
      sysv_default_def Let_def split: list.split)

text \<open>
  With a frame to give whose alias in the direct map is a valid save area, the call
  succeeds: the save area is that alias, it is aligned on 16 bytes and it holds the
  register file with the control words of the calling convention.
\<close>

lemma processor_init_pcb_allocates:
  assumes "frames m = f # fs" "valid_area (PHYS_TO_VIRT m f)"
  shows "\<exists>m'. processor_init_pcb p m = Inr (0, p\<lparr>pcb := (pcb p)\<lparr>fpu_state := PHYS_TO_VIRT m f\<rparr>\<rparr>, m') \<and>
           frames m' = fs \<and>
           fpu m' = sysv_default (fpu m) \<and>
           mem m' (PHYS_TO_VIRT m f) = fpu m' \<and>
           fcw (fpu m') = 0x33F \<and> mxcsr (fpu m') = 0x1F80 \<and>
           PHYS_TO_VIRT m f AND 0xF = 0"
  using assms
  by (simp add: processor_init_pcb_cases PHYS_TO_VIRT_def Let_def valid_area_def sysv_default_def)

text \<open>The test for \<open>NULL\<close> does catch the failure when the direct map has offset 0.\<close>

lemma processor_init_pcb_identity_map:
  assumes "frames m = []" "VM_HIGHER_HALF m = 0"
  shows "processor_init_pcb p m =
           Inr (- 1, p\<lparr>pcb := (pcb p)\<lparr>fpu_state := 0\<rparr>\<rparr>,
                m\<lparr>vm_calls := vm_calls m @ [VM_ALLOC_PAGEFRAME 1]\<rparr>)"
  using assms by (simp add: processor_init_pcb_cases Let_def)

lemma processor_init_pcb_fails_iff:
  "(\<exists>p' m'. processor_init_pcb p m = Inr (- 1, p', m')) \<longleftrightarrow>
     PHYS_TO_VIRT m (fst (vm_alloc_pageframe m)) = 0"
  by (auto simp add: processor_init_pcb_cases Let_def PHYS_TO_VIRT_def vm_alloc_pageframe_def
      split: list.splits)

text \<open>
  Claim C3. \<open>processor_init_pcb\<close> is to return a failure indicator and leave the
  save-area pointer unset when no physical page is available. The code tests the
  translated pointer, not the physical address: with no frame left and the direct map
  at \<open>0xFFFF800000000000\<close>, \<open>PHYS_TO_VIRT(0)\<close> is not \<open>NULL\<close>, the function stores the
  register image at the alias of physical address 0, sets the save-area pointer to it
  and returns 0.
\<close>

theorem processor_init_pcb_no_frame:
  "processor_init_pcb fresh_proc exhausted =
     Inr (0, proc_at 0xFFFF800000000000,
          exhausted\<lparr>fpu := \<lparr>fcw = 0x33F, mxcsr = 0x1F80, fpu_rest = [1, 2, 3]\<rparr>,
                    mem := (mem exhausted)(0xFFFF800000000000 :=
                              \<lparr>fcw = 0x33F, mxcsr = 0x1F80, fpu_rest = [1, 2, 3]\<rparr>),
                    vm_calls := [VM_ALLOC_PAGEFRAME 1]\<rparr>)"
  by (simp add: processor_init_pcb_cases exhausted_def hhdm_machine_def fresh_proc_def
      proc_at_def valid_area_def sysv_default_def Let_def)

lemma VIRT_TO_PHYS_PHYS_TO_VIRT: "VIRT_TO_PHYS m (PHYS_TO_VIRT m phys) = phys"
  by (simp add: VIRT_TO_PHYS_def PHYS_TO_VIRT_def)

text \<open>
  Claim C7. For a process whose save-area pointer is \<open>NULL\<close> (no save area was ever
  allocated), \<open>processor_free_pcb\<close> returns -1 and leaves the machine as it was: no call
  to the allocator, no frame freed. For a process whose save area is the alias of the
  frame \<open>phys\<close>, it hands that frame back with \<open>vm_free_pageframe\<close> and returns 0.
\<close>

theorem processor_free_pcb_result:
  "(fpu_state (pcb p) = 0 \<longrightarrow> processor_free_pcb p m = (- 1, p, m)) \<and>
   (fpu_state (pcb p) = PHYS_TO_VIRT m phys \<and> fpu_state (pcb p) \<noteq> 0 \<longrightarrow>
      processor_free_pcb p m = (0, p, vm_free_pageframe phys m) \<and>
      frames (vm_free_pageframe phys m) = frames m @ [phys] \<and>
      vm_calls (vm_free_pageframe phys m) = vm_calls m @ [VM_FREE_PAGEFRAME phys 1])"
  by (simp add: processor_free_pcb_def VIRT_TO_PHYS_PHYS_TO_VIRT vm_free_pageframe_def)

theorem processor_free_pcb_result_witness:
  "processor_free_pcb fresh_proc hhdm_machine = (- 1, fresh_proc, hhdm_machine) \<and>
   processor_free_pcb (proc_at 0xFFFF800000005000) hhdm_machine
     = (0, proc_at 0xFFFF800000005000, vm_free_pageframe 0x5000 hhdm_machine)"
proof -
  have 1: "fpu_state (pcb fresh_proc) = 0" by (simp add: fresh_proc_def)
  have 2: "fpu_state (pcb (proc_at 0xFFFF800000005000)) = PHYS_TO_VIRT hhdm_machine 0x5000 \<and>
           fpu_state (pcb (proc_at 0xFFFF800000005000)) \<noteq> 0"
    by (simp add: proc_at_def PHYS_TO_VIRT_def hhdm_machine_def)
  from processor_free_pcb_result [of fresh_proc hhdm_machine] 1
    processor_free_pcb_result [of "proc_at 0xFFFF800000005000" hhdm_machine "0x5000"] 2
  show ?thesis by blast
qed

text \<open>
  Claim C9. A successful \<open>processor_free_pcb\<close> leaves the process, and so its save-area
  pointer, as it was; a second call on the same process returns 0 again and hands the
  same frame to \<open>vm_free_pageframe\<close> a second time.
\<close>

theorem processor_free_pcb_twice:
  assumes "fpu_state (pcb p) = PHYS_TO_VIRT m phys" "fpu_state (pcb p) \<noteq> 0"
  shows "\<exists>m1 m2. processor_free_pcb p m = (0, p, m1) \<and>
           processor_free_pcb p m1 = (0, p, m2) \<and>
           vm_calls m2 = vm_calls m @ [VM_FREE_PAGEFRAME phys 1, VM_FREE_PAGEFRAME phys 1] \<and>
           frames m2 = frames m @ [phys, phys]"
  using assms
  by (simp add: processor_free_pcb_def VIRT_TO_PHYS_def PHYS_TO_VIRT_def vm_free_pageframe_def)

theorem processor_free_pcb_twice_witness:
  "\<exists>m1 m2. processor_free_pcb (proc_at 0xFFFF800000005000) hhdm_machine
              = (0, proc_at 0xFFFF800000005000, m1) \<and>
           processor_free_pcb (proc_at 0xFFFF800000005000) m1 = (0, proc_at 0xFFFF800000005000, m2) \<and>
           vm_calls m2 = [VM_FREE_PAGEFRAME 0x5000 1, VM_FREE_PAGEFRAME 0x5000 1]"
proof -
  have 1: "fpu_state (pcb (proc_at 0xFFFF800000005000)) = PHYS_TO_VIRT hhdm_machine 0x5000"
    by (simp add: proc_at_def PHYS_TO_VIRT_def hhdm_machine_def)
  have 2: "fpu_state (pcb (proc_at 0xFFFF800000005000)) \<noteq> 0"
    by (simp add: proc_at_def)
  have 3: "vm_calls hhdm_machine = []" by (simp add: hhdm_machine_def)
  from processor_free_pcb_twice [OF 1 2] 3 show ?thesis by auto
qed

text \<open>
  Claim C5. Let the incoming process be present, with a valid save area. When the
  outgoing process is absent, \<open>processor_switch_to\<close> writes to no save area (memory is
  unchanged) and loads the incoming save area into the live registers. When the outgoing
  process is present, with a valid save area, the live registers are stored in the
  outgoing save area, nothing else in memory changes, and the live registers are then
  loaded from the incoming save area.
\<close>

theorem processor_switch_to_effect:
  assumes "valid_area (fpu_state (pcb new))"
  shows "processor_switch_to None (Some new) m = Inr (m\<lparr>fpu := mem m (fpu_state (pcb new))\<rparr>) \<and>
         (valid_area (fpu_state (pcb old)) \<longrightarrow>
            (\<exists>m'. processor_switch_to (Some old) (Some new) m = Inr m' \<and>
                  mem m' = (mem m)(fpu_state (pcb old) := fpu m) \<and>
                  fpu m' = mem m' (fpu_state (pcb new)) \<and>
                  frames m' = frames m \<and> vm_calls m' = vm_calls m))"
  using assms
  by (simp add: processor_switch_to_def amd64_fxsave_def amd64_fxrstor_def)

theorem processor_switch_to_effect_witness:
  "processor_switch_to None (Some (proc_at 0xFFFF800000005000)) hhdm_machine
     = Inr (hhdm_machine\<lparr>fpu := mem hhdm_machine 0xFFFF800000005000\<rparr>) \<and>
   (\<exists>m'. processor_switch_to (Some (proc_at 0xFFFF800000006000)) (Some (proc_at 0xFFFF800000005000))
            hhdm_machine = Inr m' \<and>
         mem m' 0xFFFF800000006000 = fpu hhdm_machine \<and>
         fpu m' = mem m' 0xFFFF800000005000)"
proof -
  have 1: "valid_area (fpu_state (pcb (proc_at 0xFFFF800000005000)))"
    by (simp add: proc_at_def valid_area_def)
  have 2: "valid_area (fpu_state (pcb (proc_at 0xFFFF800000006000)))"
    by (simp add: proc_at_def valid_area_def)
  from processor_switch_to_effect [OF 1, of hhdm_machine "proc_at 0xFFFF800000006000"] 2
  show ?thesis by (auto simp add: proc_at_def)
qed

text \<open>
  Claim C4. Let A and B each have a valid save area of its own. Switching from A to B
  and later from B to A, with anything at all done to the live registers in between (B
  runs) but A's save area not written in between (no instruction runs as A), leaves the
  live registers exactly as they were before the first switch.
\<close>

theorem processor_switch_to_round_trip:
  assumes "valid_area (fpu_state (pcb A))" "valid_area (fpu_state (pcb B))"
    and "fpu_state (pcb A) \<noteq> fpu_state (pcb B)"
  shows "\<exists>m1. processor_switch_to (Some A) (Some B) m = Inr m1 \<and>
           (\<forall>m2. mem m2 (fpu_state (pcb A)) = mem m1 (fpu_state (pcb A)) \<longrightarrow>
              (\<exists>m3. processor_switch_to (Some B) (Some A) m2 = Inr m3 \<and> fpu m3 = fpu m))"
  using assms
  by (simp add: processor_switch_to_def amd64_fxsave_def amd64_fxrstor_def)

theorem processor_switch_to_round_trip_witness:
  "\<exists>m1 m3. processor_switch_to (Some (proc_at 0xFFFF800000005000)) (Some (proc_at 0xFFFF800000006000))
              hhdm_machine = Inr m1 \<and>
           processor_switch_to (Some (proc_at 0xFFFF800000006000)) (Some (proc_at 0xFFFF800000005000))
              (m1\<lparr>fpu := \<lparr>fcw = 0x27F, mxcsr = 0x1F80, fpu_rest = [9]\<rparr>\<rparr>) = Inr m3 \<and>
           fpu m3 = \<lparr>fcw = 0x37F, mxcsr = 0x1FA0, fpu_rest = [1, 2, 3]\<rparr>"
proof -
  let ?A = "proc_at 0xFFFF800000005000" and ?B = "proc_at 0xFFFF800000006000"
  have 1: "valid_area (fpu_state (pcb ?A))" by (simp add: proc_at_def valid_area_def)
  have 2: "valid_area (fpu_state (pcb ?B))" by (simp add: proc_at_def valid_area_def)
  have 3: "fpu_state (pcb ?A) \<noteq> fpu_state (pcb ?B)" by (simp add: proc_at_def)
  from processor_switch_to_round_trip [OF 1 2 3, of hhdm_machine]
  obtain m1 where
    a: "processor_switch_to (Some ?A) (Some ?B) hhdm_machine = Inr m1" and
    b: "\<forall>m2. mem m2 (fpu_state (pcb ?A)) = mem m1 (fpu_state (pcb ?A)) \<longrightarrow>
              (\<exists>m3. processor_switch_to (Some ?B) (Some ?A) m2 = Inr m3 \<and> fpu m3 = fpu hhdm_machine)"
    by blast
  from b have "\<exists>m3. processor_switch_to (Some ?B) (Some ?A)
                       (m1\<lparr>fpu := \<lparr>fcw = 0x27F, mxcsr = 0x1F80, fpu_rest = [9]\<rparr>\<rparr>) = Inr m3 \<and>
                     fpu m3 = fpu hhdm_machine"
    by simp
  with a show ?thesis by (auto simp add: hhdm_machine_def)
qed

text \<open>
  The save areas have to be two: with one save area for both, the second switch loads
  what B left.
\<close>

lemma shared_area:
  "\<exists>m1 m3. processor_switch_to (Some (proc_at 0xFFFF800000005000)) (Some (proc_at 0xFFFF800000005000))
              hhdm_machine = Inr m1 \<and>
           processor_switch_to (Some (proc_at 0xFFFF800000005000)) (Some (proc_at 0xFFFF800000005000))
              (m1\<lparr>fpu := \<lparr>fcw = 0x27F, mxcsr = 0x1F80, fpu_rest = [9]\<rparr>\<rparr>) = Inr m3 \<and>
           fpu m3 = \<lparr>fcw = 0x27F, mxcsr = 0x1F80, fpu_rest = [9]\<rparr>"
  by (simp add: processor_switch_to_def amd64_fxsave_def amd64_fxrstor_def proc_at_def valid_area_def)

subsection \<open>The kernel log\<close>

lemma syslog_write_loop_take:
  "len \<le> length s \<Longrightarrow>
   syslog_write_loop dbg s len out = Inr (out @ put_events dbg (take len s))"
proof (induction dbg s len out rule: syslog_write_loop.induct)
  case (1 dbg tmp_s out)
  then show ?case by (simp add: put_events_def)
next
  case (2 dbg tmp_len out)
  then show ?case by simp
next
  case (3 dbg c tmp_s tmp_len out)
  then show ?case by (simp add: put_events_def)
qed

lemma putc_chars_append: "putc_chars (xs @ ys) = putc_chars xs @ putc_chars ys"
  by (induction xs rule: putc_chars.induct) simp_all

lemma putc_chars_put_events: "putc_chars (put_events dbg cs) = cs"
  by (cases dbg; induction cs) (simp_all add: put_events_def)

lemma vsnprintf_buffer:
  "vsnprintf (replicate 1024 0) 1024 text =
     take 1023 text @ 0 # replicate (1023 - min (length text) 1023) 0"
  by (simp add: vsnprintf_def Let_def min_def)

lemma takeWhile_terminated:
  "takeWhile (\<lambda>c. c \<noteq> (0::8 word)) (xs @ 0 # ys) = takeWhile (\<lambda>c. c \<noteq> 0) xs"
  by (induction xs) simp_all

lemma strlen_buffer:
  "strlen (vsnprintf (replicate 1024 0) 1024 text) =
     Some (length (takeWhile (\<lambda>c. c \<noteq> 0) (take 1023 text)))"
  by (simp add: vsnprintf_buffer strlen_def takeWhile_terminated)

lemma take_strlen:
  "take (length (takeWhile (\<lambda>c. c \<noteq> 0) (take 1023 text)))
     (vsnprintf (replicate 1024 0) 1024 text) = takeWhile (\<lambda>c. c \<noteq> 0) (take 1023 text)"
proof -
  let ?w = "takeWhile (\<lambda>c. c \<noteq> (0::8 word)) (take 1023 text)"
  have "take (length ?w) (take 1023 text) = ?w"
    by (rule takeWhile_eq_take [symmetric])
  moreover have "length ?w \<le> length (take 1023 text)"
    by (rule length_takeWhile_le)
  ultimately show ?thesis by (simp add: vsnprintf_buffer)
qed

text \<open>
  Claim C10. Whatever the format string and its arguments expand to, \<open>vkprintf\<close> (and
  \<open>kprintf\<close>, which only passes its arguments on) hands the terminal the characters of the
  expansion up to its first NUL, and no more than the first 1023 of them, then flushes.
\<close>

theorem vkprintf_emits:
  "vkprintf dbg text out =
     Inr (out @ put_events dbg (takeWhile (\<lambda>c. c \<noteq> 0) (take 1023 text)) @ [TTY_FLUSH]) \<and>
   putc_chars (put_events dbg (takeWhile (\<lambda>c. c \<noteq> 0) (take 1023 text)) @ [TTY_FLUSH])
     = takeWhile (\<lambda>c. c \<noteq> 0) (take 1023 text) \<and>
   length (takeWhile (\<lambda>c. c \<noteq> 0) (take 1023 text)) \<le> 1023 \<and>
   kprintf dbg text out = vkprintf dbg text out"
proof -
  let ?w = "takeWhile (\<lambda>c. c \<noteq> (0::8 word)) (take 1023 text)"
  let ?b = "vsnprintf (replicate 1024 0) 1024 text"
  have len: "length ?w \<le> 1023"
    using length_takeWhile_le [of "\<lambda>c. c \<noteq> 0" "take 1023 text"] by simp
  have "length ?b = 1024" by (simp add: vsnprintf_buffer min_def)
  with len have "length ?w \<le> length ?b" by simp
  from syslog_write_loop_take [OF this]
  have "syslog_write_loop dbg ?b (length ?w) out = Inr (out @ put_events dbg ?w)"
    by (simp add: take_strlen)
  then have "vkprintf dbg text out = Inr (out @ put_events dbg ?w @ [TTY_FLUSH])"
    by (simp add: vkprintf_def strlen_buffer syslog_write_def)
  moreover have "putc_chars (put_events dbg ?w @ [TTY_FLUSH]) = ?w"
    by (simp add: putc_chars_append putc_chars_put_events)
  ultimately show ?thesis using len by (simp add: kprintf_def)
qed

end
